theory Spec2Isabelle
  imports Main
begin

section \<open>custom\_ops.hpp: operator tags\<close>

text \<open>
  The eight prefix unary operators the header supports (\<^verbatim>\<open>BOOST_COPS_ITERATE_OPS\<close>):
  \<^verbatim>\<open>+ - & * ++ -- ! ~\<close>. The increment and decrement operators are single tokens.
\<close>

datatype unop = Plus | Minus | Amp | Asterisk | Increment | Decrement | Excl | Tilde

text \<open>The eight empty tag structs. A tag type has one value, so one constant stands for both.\<close>

datatype tag = plus_tag | minus_tag | amp_tag | asterisk_tag
  | increment_tag | decrement_tag | excl_tag | tilde_tag

text \<open>The unnamed struct \<^verbatim>\<open>tag_from_op\<close>: one operator member per supported token.\<close>

fun tag_from_op :: "unop \<Rightarrow> tag" where
  "tag_from_op Plus = plus_tag"
| "tag_from_op Minus = minus_tag"
| "tag_from_op Amp = amp_tag"
| "tag_from_op Asterisk = asterisk_tag"
| "tag_from_op Increment = increment_tag"
| "tag_from_op Decrement = decrement_tag"
| "tag_from_op Excl = excl_tag"
| "tag_from_op Tilde = tilde_tag"

section \<open>custom\_ops.hpp: types, unwrap and wrapped\<close>

text \<open>
  The C++ types the header computes with. \<open>wrapped T Tg\<close> is the instance
  \<^verbatim>\<open>wrapped<T, Tg>\<close> of the class template (both parameters are arbitrary types);
  \<open>Tag t\<close> is a tag struct used as a type. Volatile qualification is left out.
\<close>

datatype cpp_type =
    Fundamental string
  | Class string
  | Pointer cpp_type
  | Const cpp_type
  | Reference cpp_type
  | Tag tag
  | wrapped cpp_type cpp_type
  | reference_wrapper cpp_type
  | cop_reference_wrapper cpp_type

text \<open>\<^verbatim>\<open>BOOST_COPS_OPTAG(OP)\<close> is \<^verbatim>\<open>BOOST_TYPEOF(OP tag_from_op)\<close>.\<close>

definition BOOST_COPS_OPTAG :: "unop \<Rightarrow> cpp_type" where
  "BOOST_COPS_OPTAG OP = Tag (tag_from_op OP)"

text \<open>
  \<^verbatim>\<open>unwrap<W>::type\<close>. The partial specialisation for \<^verbatim>\<open>wrapped<W, Tag>\<close> is more
  specialised than the primary template, so it is the first equation.
\<close>

fun unwrap :: "cpp_type \<Rightarrow> cpp_type" where
  "unwrap (wrapped W Tg) = unwrap W"
| "unwrap W = W"

text \<open>
  An object of type \<^verbatim>\<open>wrapped<T, Tag>\<close>: the two template arguments and the data member
  \<^verbatim>\<open>value\<close>, whose C++ type is the member typedef \<^verbatim>\<open>type\<close>.
\<close>

record 'v wrapped_obj =
  wT :: cpp_type
  wTag :: cpp_type
  wvalue :: 'v

definition wrapped_type :: "cpp_type \<Rightarrow> cpp_type \<Rightarrow> cpp_type" where
  "wrapped_type T Tg = unwrap T"

definition type_of_wrapped :: "'v wrapped_obj \<Rightarrow> cpp_type" where
  "type_of_wrapped w = wrapped (wT w) (wTag w)"

text \<open>The constructor \<^verbatim>\<open>explicit wrapped(type t) : value(t)\<close>.\<close>

definition wrapped_from_value :: "cpp_type \<Rightarrow> cpp_type \<Rightarrow> 'v \<Rightarrow> 'v wrapped_obj" where
  "wrapped_from_value T Tg t = \<lparr>wT = T, wTag = Tg, wvalue = t\<rparr>"

text \<open>The constructor template \<^verbatim>\<open>explicit wrapped(wrapped<U, Tag> u) : value(u.value)\<close>.\<close>

definition wrapped_from_wrapped :: "cpp_type \<Rightarrow> cpp_type \<Rightarrow> 'v wrapped_obj \<Rightarrow> 'v wrapped_obj" where
  "wrapped_from_wrapped T Tg u = \<lparr>wT = T, wTag = Tg, wvalue = wvalue u\<rparr>"

section \<open>custom\_ops.hpp: the type finder and the wrapping operators\<close>

text \<open>
  \<^verbatim>\<open>type_finder_impl<T>\<close> has no data; only its template argument matters, which the
  member typedef \<^verbatim>\<open>type\<close> gives back.
\<close>

datatype type_finder_impl = type_finder_impl (type_member: cpp_type)

text \<open>
  \<^verbatim>\<open>BOOST_COPS_MAKE_TYPE_FINDER(OP)\<close>: the member \<^verbatim>\<open>operator OP\<close> of
  \<^verbatim>\<open>type_finder_impl<T>\<close> returns a \<^verbatim>\<open>type_finder_impl<wrapped<T, BOOST_COPS_OPTAG(OP)>>\<close>.
\<close>

fun type_finder_operator :: "unop \<Rightarrow> type_finder_impl \<Rightarrow> type_finder_impl" where
  "type_finder_operator OP (type_finder_impl T) = type_finder_impl (wrapped T (BOOST_COPS_OPTAG OP))"

text \<open>The static member \<^verbatim>\<open>type_finder<T>::f\<close>.\<close>

definition type_finder_f :: "cpp_type \<Rightarrow> type_finder_impl" where
  "type_finder_f T = type_finder_impl T"

text \<open>
  \<^verbatim>\<open>BOOST_COPS_MAKE_WRAPPING_OPERATORS(OP)\<close>: the free operator template taking a
  \<^verbatim>\<open>wrapped<T, Tag>\<close> by value and returning
  \<^verbatim>\<open>wrapped<wrapped<T, Tag>, BOOST_COPS_OPTAG(OP)>(w)\<close>.
\<close>

definition wrapping_operator :: "unop \<Rightarrow> 'v wrapped_obj \<Rightarrow> 'v wrapped_obj" where
  "wrapping_operator OP w =
     wrapped_from_wrapped (wrapped (wT w) (wTag w)) (BOOST_COPS_OPTAG OP) w"

text \<open>
  The nested wrapper type \<^verbatim>\<open>wrapped<...wrapped<T, Tg1>..., Tgn>\<close> for the tag types
  \<open>Tg1, ..., Tgn\<close>, innermost first. This follows the words of the specification and is
  compared below with what the operators of the source compute.
\<close>

fun nested_wrapper :: "cpp_type \<Rightarrow> cpp_type list \<Rightarrow> cpp_type" where
  "nested_wrapper T [] = T"
| "nested_wrapper T (Tg # Tgs) = nested_wrapper (wrapped T Tg) Tgs"

text \<open>Whether a type is an instance \<^verbatim>\<open>wrapped<_, _>\<close> of the class template.\<close>

fun is_wrapped :: "cpp_type \<Rightarrow> bool" where
  "is_wrapped (wrapped T Tg) = True"
| "is_wrapped T = False"

section \<open>custom\_ops.hpp: reasonable\_type\_for\_unary\_operator\_overload\<close>

text \<open>
  The Boost type traits the metafunction uses, on the types above. The template parameter
  \<^verbatim>\<open>T_\<close> of the source is \<open>T0\<close> here.
\<close>

fun is_reference :: "cpp_type \<Rightarrow> bool" where
  "is_reference (Reference T) = True"
| "is_reference T = False"

fun remove_reference :: "cpp_type \<Rightarrow> cpp_type" where
  "remove_reference (Reference T) = T"
| "remove_reference T = T"

fun add_const :: "cpp_type \<Rightarrow> cpp_type" where
  "add_const (Const T) = Const T"
| "add_const (Reference T) = Reference T"
| "add_const T = Const T"

fun is_fundamental :: "cpp_type \<Rightarrow> bool" where
  "is_fundamental (Fundamental n) = True"
| "is_fundamental (Const T) = is_fundamental T"
| "is_fundamental T = False"

fun is_pointer :: "cpp_type \<Rightarrow> bool" where
  "is_pointer (Pointer T) = True"
| "is_pointer (Const T) = is_pointer T"
| "is_pointer T = False"

text \<open>The member typedef \<^verbatim>\<open>T\<close> of the metafunction, an \<^verbatim>\<open>mpl::eval_if\<close>.\<close>

definition reasonable_type_T :: "cpp_type \<Rightarrow> cpp_type" where
  "reasonable_type_T T0 = (if is_reference T0 then remove_reference T0 else add_const T0)"

text \<open>The member typedef \<^verbatim>\<open>type\<close> of the metafunction, an \<^verbatim>\<open>mpl::if_\<close>.\<close>

definition reasonable_type_for_unary_operator_overload :: "cpp_type \<Rightarrow> cpp_type" where
  "reasonable_type_for_unary_operator_overload T0 =
     (let T = reasonable_type_T T0
      in if is_fundamental T \<or> is_pointer T then cop_reference_wrapper T else T0)"

section \<open>custom\_ops.hpp: what BOOST\_CUSTOM\_OP declares\<close>

text \<open>
  One use of \<^verbatim>\<open>BOOST_CUSTOM_OP(rettype, param1type, param1name, binop, ops, firstop,
  param2type, param2name) { body }\<close>. The return type and the first parameter type are the
  HOL types \<open>'r\<close> and \<open>'a\<close>; values of the second parameter type are of HOL type \<open>'v\<close>, and
  \<open>param2type\<close> is its C++ type, which the macro computes with. The binary operator token
  is of an arbitrary type \<open>'bop\<close>. \<open>implementation\<close> is the function the body defines,
  \<^verbatim>\<open>boost_custom_ops_implementation___LINE__\<close>.
\<close>

record ('r, 'a, 'bop, 'v) custom_op =
  binop :: 'bop
  ops :: "unop list"
  firstop :: unop
  param2type :: cpp_type
  implementation :: "'a \<Rightarrow> 'v \<Rightarrow> 'r"

text \<open>
  The first declaration of the macro: the unary \<^verbatim>\<open>operator firstop\<close> on
  \<^verbatim>\<open>reasonable_type_for_unary_operator_overload<param2type>::type w\<close>, returning
  \<^verbatim>\<open>wrapped<param2type, BOOST_TYPEOF(firstop tag_from_op)>(w)\<close>.
\<close>

definition custom_unary_param :: "('r, 'a, 'bop, 'v) custom_op \<Rightarrow> cpp_type" where
  "custom_unary_param d = reasonable_type_for_unary_operator_overload (param2type d)"

definition custom_unary :: "('r, 'a, 'bop, 'v) custom_op \<Rightarrow> 'v \<Rightarrow> 'v wrapped_obj" where
  "custom_unary d w = wrapped_from_value (param2type d) (BOOST_COPS_OPTAG (firstop d)) w"

text \<open>
  The type of the second parameter of the generated binary operator,
  \<^verbatim>\<open>BOOST_TYPEOF(ops firstop type_finder<param2type>::f)::type\<close>. In the prefix expression
  \<^verbatim>\<open>ops firstop f\<close> the operator next to \<^verbatim>\<open>f\<close> is applied first, which is
  \<open>foldr\<close> over the tokens as written.
\<close>

definition custom_binary_param :: "('r, 'a, 'bop, 'v) custom_op \<Rightarrow> cpp_type" where
  "custom_binary_param d =
     type_member (foldr type_finder_operator (ops d @ [firstop d]) (type_finder_f (param2type d)))"

text \<open>
  The result of evaluating an expression: the value, and the calls made to the
  implementation function on the way, with their arguments.
\<close>

record ('r, 'a, 'v) outcome =
  result :: 'r
  implementation_calls :: "('a \<times> 'v) list"

text \<open>
  The body of the generated binary operator:
  \<^verbatim>\<open>return boost_custom_ops_implementation___LINE__(a, b.value);\<close>
\<close>

definition custom_binary :: "('r, 'a, 'bop, 'v) custom_op \<Rightarrow> 'a \<Rightarrow> 'v wrapped_obj \<Rightarrow> ('r, 'a, 'v) outcome" where
  "custom_binary d a b =
     \<lparr>result = implementation d a (wvalue b), implementation_calls = [(a, wvalue b)]\<rparr>"

section \<open>Evaluating an expression that uses a custom operator\<close>

text \<open>
  A value of \<open>custom_op\<close> stands for a use of the macro that compiles. The program is taken
  to declare no operators of its own on the library's \<^verbatim>\<open>wrapped\<close> types, and distinct
  class names stand for unrelated classes.

  An operand of an operator: \<open>Plain T l v\<close> is an expression of type \<open>T\<close> (possibly const,
  never a reference) for an object with value \<open>v\<close>, an lvalue if \<open>l\<close> holds. For a pointer
  type \<open>v\<close> is the value of the object pointed to, for a reference wrapper that of the
  object referred to. \<open>Wrapped w\<close> is a temporary of type \<^verbatim>\<open>wrapped<T, Tag>\<close>, as the
  operators of the library return it.
\<close>

datatype 'v operand = Plain cpp_type bool 'v | Wrapped "'v wrapped_obj"

fun static_type :: "'v operand \<Rightarrow> cpp_type" where
  "static_type (Plain T l v) = T"
| "static_type (Wrapped w) = type_of_wrapped w"

fun is_lvalue :: "'v operand \<Rightarrow> bool" where
  "is_lvalue (Plain T l v) = l"
| "is_lvalue (Wrapped w) = False"

fun operand_value :: "'v operand \<Rightarrow> 'v" where
  "operand_value (Plain T l v) = v"
| "operand_value (Wrapped w) = wvalue w"

fun remove_const :: "cpp_type \<Rightarrow> cpp_type" where
  "remove_const (Const T) = T"
| "remove_const T = T"

definition remove_cv_ref :: "cpp_type \<Rightarrow> cpp_type" where
  "remove_cv_ref T = remove_const (remove_reference T)"

text \<open>
  The operand seen as an object of a \<^verbatim>\<open>wrapped\<close> type, if it is one: a temporary, or a
  named object whose type is an instance of \<^verbatim>\<open>wrapped\<close>, with \<open>v\<close> in its \<^verbatim>\<open>value\<close>.
\<close>

fun wrapped_view :: "'v operand \<Rightarrow> 'v wrapped_obj option" where
  "wrapped_view (Wrapped w) = Some w"
| "wrapped_view (Plain T l v) =
     (case remove_const T of
        wrapped X Tg \<Rightarrow> Some \<lparr>wT = X, wTag = Tg, wvalue = v\<rparr>
      | _ \<Rightarrow> None)"

text \<open>
  Whether a parameter of type \<open>Q\<close> takes an argument of type \<open>A\<close> as it is: a reference to
  const binds to an object of the referred type, const or not, lvalue or not; a reference
  to non-const binds to an lvalue of exactly the referred type; a parameter taken by value
  is copied from an object of its type.
\<close>

fun direct_binding :: "cpp_type \<Rightarrow> cpp_type \<Rightarrow> bool \<Rightarrow> bool" where
  "direct_binding (Reference (Const X)) A l = (remove_const A = X)"
| "direct_binding (Reference X) A l = (l \<and> A = X)"
| "direct_binding Q A l = (remove_const A = remove_const Q)"

text \<open>
  \<^verbatim>\<open>reference_wrapper<T>\<close>, and \<^verbatim>\<open>cop_reference_wrapper<T>\<close> which derives from it, convert to
  \<^verbatim>\<open>T&\<close> by a const conversion function.
\<close>

fun referee :: "cpp_type \<Rightarrow> cpp_type option" where
  "referee (reference_wrapper T) = Some T"
| "referee (cop_reference_wrapper T) = Some T"
| "referee (Const X) = referee X"
| "referee X = None"

text \<open>
  Whether a parameter of type \<open>Q\<close> takes an argument of type \<open>A\<close> through one user-defined
  conversion of the reference wrappers: the conversion function to \<^verbatim>\<open>T&\<close>, or the
  converting constructor \<^verbatim>\<open>cop_reference_wrapper(reference_wrapper<T> w)\<close>, whose result is a
  temporary.
\<close>

definition converting_binding :: "cpp_type \<Rightarrow> cpp_type \<Rightarrow> bool" where
  "converting_binding Q A =
     (case referee A of
        None \<Rightarrow> False
      | Some Y \<Rightarrow>
          direct_binding Q Y True \<or>
          (remove_const A = reference_wrapper Y \<and> direct_binding Q (cop_reference_wrapper Y) False))"

text \<open>
  The operator of the library that overload resolution picks among the operators of the
  library for one prefix operator \<open>OP\<close> on an operand, if one is viable. Overloaded
  operators are considered only for an operand of class type, so never for a fundamental
  type or a pointer. The operator of the macro is not a template and is preferred to the
  wrapping operator template when it takes the operand as it is; an operator that needs a
  user-defined conversion comes last.
\<close>

definition library_unary :: "('r, 'a, 'bop, 'v) custom_op \<Rightarrow> unop \<Rightarrow> 'v operand \<Rightarrow> 'v operand option" where
  "library_unary d OP x =
     (let Q = custom_unary_param d; A = static_type x;
          considered = (OP = firstop d \<and> \<not> is_fundamental A \<and> \<not> is_pointer A)
      in if considered \<and> direct_binding Q A (is_lvalue x)
         then Some (Wrapped (custom_unary d (operand_value x)))
         else case wrapped_view x of
                Some w \<Rightarrow> Some (Wrapped (wrapping_operator OP w))
              | None \<Rightarrow>
                  if considered \<and> converting_binding Q A
                  then Some (Wrapped (custom_unary d (operand_value x)))
                  else None)"

text \<open>
  The operators that are not the library's, for an operand that is not of a \<^verbatim>\<open>wrapped\<close> type:
  the built-in operators and the operators the program declares itself. They are a
  parameter of the evaluation. \<open>Not_viable\<close>: no such operator is a viable candidate for
  the operand; \<open>Yields y\<close>: one is, and it gives \<open>y\<close> where it is selected;
  \<open>Fallback y\<close>: the built-in address-of operator applies and gives \<open>y\<close>;
  \<open>Not_followed\<close>: these operators are not followed here for the operand, one may be
  viable.
\<close>

datatype 'v other = Not_viable | Yields "'v operand" | Fallback "'v operand" | Not_followed

type_synonym 'v others = "unop \<Rightarrow> 'v operand \<Rightarrow> 'v other"

text \<open>
  Whether the other operator takes part in overload resolution against an operator of the
  library. The built-in \<^verbatim>\<open>&\<close> does not: it is used only where no overloaded operator is
  viable.
\<close>

fun competes :: "'v other \<Rightarrow> bool" where
  "competes Not_viable = False"
| "competes (Fallback y) = False"
| "competes (Yields y) = True"
| "competes Not_followed = True"

text \<open>
  What an evaluation step gives: a value, or the expression is ill-formed, or the step is
  not decided here (an operator of the library competes with another one, or the other
  operator is not followed).
\<close>

datatype 'x resolution = Selected 'x | Ill_formed | Undecided

text \<open>One prefix operator \<open>OP\<close> applied to an operand.\<close>

definition unary_operator ::
  "'v others \<Rightarrow> ('r, 'a, 'bop, 'v) custom_op \<Rightarrow> unop \<Rightarrow> 'v operand \<Rightarrow> 'v operand resolution" where
  "unary_operator others d OP x =
     (let other = (if wrapped_view x = None then others OP x else Not_viable)
      in case library_unary d OP x of
           Some y \<Rightarrow> if competes other then Undecided else Selected y
         | None \<Rightarrow> (case other of
                       Not_viable \<Rightarrow> Ill_formed
                     | Yields y \<Rightarrow> Selected y
                     | Fallback y \<Rightarrow> Selected y
                     | Not_followed \<Rightarrow> Undecided))"

text \<open>The prefix expression \<^verbatim>\<open>u1 u2 ... un x\<close>: the operator next to the operand first.\<close>

fun eval_prefix ::
  "'v others \<Rightarrow> ('r, 'a, 'bop, 'v) custom_op \<Rightarrow> unop list \<Rightarrow> 'v operand \<Rightarrow> 'v operand resolution" where
  "eval_prefix others d [] x = Selected x"
| "eval_prefix others d (u # us) x =
     (case eval_prefix others d us x of
        Selected y \<Rightarrow> unary_operator others d u y
      | Ill_formed \<Rightarrow> Ill_formed
      | Undecided \<Rightarrow> Undecided)"

text \<open>
  What becomes of the implementation function in an expression: it is called, with an
  outcome; or it is not called; or this is not decided here.
\<close>

datatype ('r, 'a, 'v) dispatch = Called "('r, 'a, 'v) outcome" | Not_called | Not_decided

text \<open>
  The binary operator \<open>bop\<close> on \<open>a\<close> and an evaluated right operand. The generated operator
  is declared for \<open>binop\<close>, and its second parameter, taken by value, needs an argument of
  the type \<open>custom_binary_param\<close>: the constructors of \<^verbatim>\<open>wrapped\<close> are explicit, so nothing
  converts to it.
\<close>

definition binary_operator ::
  "('r, 'a, 'bop, 'v) custom_op \<Rightarrow> 'bop \<Rightarrow> 'a \<Rightarrow> 'v operand \<Rightarrow> ('r, 'a, 'v) dispatch" where
  "binary_operator d bop a y =
     (case wrapped_view y of
        Some w \<Rightarrow>
          if bop = binop d \<and> type_of_wrapped w = custom_binary_param d
          then Called (custom_binary d a w) else Not_called
      | None \<Rightarrow> Not_called)"

text \<open>
  The expression \<^verbatim>\<open>a bop u1 ... un b\<close>, given by its operator tokens; prefix operators
  bind tighter than \<open>bop\<close>.
\<close>

definition eval_expression ::
  "'v others \<Rightarrow> ('r, 'a, 'bop, 'v) custom_op \<Rightarrow> 'a \<Rightarrow> 'bop \<Rightarrow> unop list \<Rightarrow> 'v operand \<Rightarrow> ('r, 'a, 'v) dispatch" where
  "eval_expression others d a bop us x =
     (case eval_prefix others d us x of
        Selected y \<Rightarrow> binary_operator d bop a y
      | Ill_formed \<Rightarrow> Not_called
      | Undecided \<Rightarrow> Not_decided)"

text \<open>
  Whether the unary operator of the macro takes an operand that is not of a \<^verbatim>\<open>wrapped\<close>
  type: the operand has class type and the parameter binds to it, as it is or through a
  conversion of a reference wrapper.
\<close>

definition takes_operand :: "('r, 'a, 'bop, 'v) custom_op \<Rightarrow> 'v operand \<Rightarrow> bool" where
  "takes_operand d x =
     (wrapped_view x = None \<and> \<not> is_fundamental (static_type x) \<and> \<not> is_pointer (static_type x) \<and>
      (direct_binding (custom_unary_param d) (static_type x) (is_lvalue x) \<or>
       converting_binding (custom_unary_param d) (static_type x)))"

text \<open>
  A variable declared with the type \<open>P\<close>, used as an operand: an lvalue of the type that
  \<open>P\<close> refers to.
\<close>

definition variable :: "cpp_type \<Rightarrow> 'v \<Rightarrow> 'v operand" where
  "variable P v = Plain (remove_reference P) True v"

section \<open>The operator string as written\<close>

text \<open>The eight operators in the order of \<^verbatim>\<open>BOOST_COPS_ITERATE_OPS\<close>, and how they are written.\<close>

definition BOOST_COPS_ITERATE_OPS :: "unop list" where
  "BOOST_COPS_ITERATE_OPS = [Plus, Minus, Amp, Asterisk, Increment, Decrement, Excl, Tilde]"

fun unop_spelling :: "unop \<Rightarrow> string" where
  "unop_spelling Plus = ''+''"
| "unop_spelling Minus = ''-''"
| "unop_spelling Amp = ''&''"
| "unop_spelling Asterisk = ''*''"
| "unop_spelling Increment = ''++''"
| "unop_spelling Decrement = ''--''"
| "unop_spelling Excl = ''!''"
| "unop_spelling Tilde = ''~''"

definition unop_of_spelling :: "string \<Rightarrow> unop option" where
  "unop_of_spelling s = find (\<lambda>u. unop_spelling u = s) BOOST_COPS_ITERATE_OPS"

text \<open>
  The operator string of a custom operator, as the introduction of the header writes it
  (\<^verbatim>\<open>/~+!-\<close>), and the tokens it is meant to be.
\<close>

definition spelling :: "('r, 'a, string, 'v) custom_op \<Rightarrow> string" where
  "spelling d = binop d @ concat (map unop_spelling (ops d @ [firstop d]))"

definition operator_tokens :: "('r, 'a, string, 'v) custom_op \<Rightarrow> string list" where
  "operator_tokens d = binop d # map unop_spelling (ops d @ [firstop d])"

text \<open>
  How the compiler cuts a text of operator characters into tokens (C++03): at each place
  the longest operator or punctuator that the text goes on with, and a comment where
  \<^verbatim>\<open>/*\<close> or \<^verbatim>\<open>//\<close> is met. The table has the operators and punctuators made of the
  characters \<^verbatim>\<open>+ - * / % ^ & | ~ ! = < > ,\<close> only, the longest first.
\<close>

definition punctuators :: "string list" where
  "punctuators =
     [''<<='', ''>>='', ''->*'',
      ''/*'', ''//'', ''<%'', ''%>'', ''+='', ''-='', ''*='', ''/='', ''%='', ''^='', ''&='',
      ''|='', ''<<'', ''>>'', ''=='', ''!='', ''<='', ''>='', ''&&'', ''||'', ''++'', ''--'', ''->'',
      ''+'', ''-'', ''*'', ''/'', ''%'', ''^'', ''&'', ''|'', ''~'', ''!'', ''='', ''<'', ''>'', '','']"

definition next_punctuator :: "string \<Rightarrow> string option" where
  "next_punctuator s = find (\<lambda>p. take (length p) s = p) punctuators"

text \<open>The number of characters up to the end of the first \<^verbatim>\<open>*/\<close> of a text, if there is one.\<close>

fun comment_end :: "string \<Rightarrow> nat option" where
  "comment_end [] = None"
| "comment_end (c # cs) =
     (if c = CHR ''*'' \<and> take 1 cs = ''/'' then Some 2 else map_option Suc (comment_end cs))"

text \<open>
  The tokens of a text; \<open>In_comment\<close>: the text ends inside a comment, which then takes in
  what follows the text; \<open>Not_lexed\<close>: the text has a character outside the table.
\<close>

datatype lexed = Tokens "string list" | In_comment | Not_lexed

text \<open>\<open>scan k s\<close> skips \<open>k\<close> characters, which belong to the token or comment before.\<close>

fun scan :: "nat \<Rightarrow> string \<Rightarrow> lexed" where
  "scan k [] = Tokens []"
| "scan (Suc k) (c # cs) = scan k cs"
| "scan 0 (c # cs) =
     (case next_punctuator (c # cs) of
        None \<Rightarrow> Not_lexed
      | Some p \<Rightarrow>
          if p = ''//'' then In_comment
          else if p = ''/*'' then
            (case comment_end (drop 1 cs) of
               None \<Rightarrow> In_comment
             | Some n \<Rightarrow> scan (Suc n) cs)
          else (case scan (length p - 1) cs of
                  Tokens ts \<Rightarrow> Tokens (p # ts)
                | In_comment \<Rightarrow> In_comment
                | Not_lexed \<Rightarrow> Not_lexed))"

definition lex :: "string \<Rightarrow> lexed" where
  "lex s = scan 0 s"

text \<open>The binary operators that can be overloaded by a function that is not a member.\<close>

definition binary_operators :: "string list" where
  "binary_operators =
     [''+'', ''-'', ''*'', ''/'', ''%'', ''^'', ''&'', ''|'', ''<'', ''>'', ''+='', ''-='', ''*='', ''/='',
      ''%='', ''^='', ''&='', ''|='', ''<<'', ''>>'', ''>>='', ''<<='', ''=='', ''!='', ''<='', ''>='',
      ''&&'', ''||'', '','', ''->*'']"

text \<open>
  The expression made of \<open>a\<close>, the text \<open>s\<close> and the operand, one directly after the other.
  When the text ends inside a comment the operand is in the comment and there is no such
  expression. A text that is not a binary operator followed by prefix operators is not
  decided here.
\<close>

definition eval_source ::
  "'v others \<Rightarrow> ('r, 'a, string, 'v) custom_op \<Rightarrow> 'a \<Rightarrow> string \<Rightarrow> 'v operand \<Rightarrow> ('r, 'a, 'v) dispatch" where
  "eval_source others d a s x =
     (case lex s of
        Not_lexed \<Rightarrow> Not_decided
      | In_comment \<Rightarrow> Not_called
      | Tokens [] \<Rightarrow> Not_decided
      | Tokens (t # ts) \<Rightarrow>
          (case those (map unop_of_spelling ts) of
             None \<Rightarrow> Not_decided
           | Some us \<Rightarrow>
               if t \<in> set binary_operators then eval_expression others d a t us x
               else Not_decided))"

section \<open>Predicated construction\<close>

text \<open>
  Addresses of storage, the objects of type \<open>T\<close> alive in it, and the constructor and
  destructor calls of \<open>T\<close> made so far, oldest first.
\<close>

type_synonym addr = nat

datatype event = Constructor_call addr | Destructor_call addr

record 'obj scope_state =
  memory :: "addr \<rightharpoonup> 'obj"
  events :: "event list"

text \<open>Applying \<^verbatim>\<open>*\<close> to a null pointer has no defined result.\<close>

datatype error = Null_dereference

text \<open>\<^verbatim>\<open>predicated_constructee_storage<T>\<close>: the pointer \<^verbatim>\<open>_t\<close>, null or an address.\<close>

record predicated_constructee_storage =
  t_ptr :: "addr option"

text \<open>The placement new expression \<^verbatim>\<open>new (&mem) obj params\<close>; its value is the address.\<close>

definition placement_new :: "addr \<Rightarrow> 'obj \<Rightarrow> 'obj scope_state \<Rightarrow> addr \<times> 'obj scope_state" where
  "placement_new mem x st =
     (mem, st\<lparr>memory := (memory st)(mem \<mapsto> x), events := events st @ [Constructor_call mem]\<rparr>)"

text \<open>The explicit destructor call \<^verbatim>\<open>_t->~T()\<close>.\<close>

definition destroy :: "addr \<Rightarrow> 'obj scope_state \<Rightarrow> 'obj scope_state" where
  "destroy p st = st\<lparr>memory := (memory st)(p := None), events := events st @ [Destructor_call p]\<rparr>"

definition storage_ctor :: "addr option \<Rightarrow> predicated_constructee_storage" where
  "storage_ctor t = \<lparr>t_ptr = t\<rparr>"

text \<open>\<^verbatim>\<open>~predicated_constructee_storage() { if (_t) _t->~T(); }\<close>\<close>

definition storage_dtor :: "predicated_constructee_storage \<Rightarrow> 'obj scope_state \<Rightarrow> 'obj scope_state" where
  "storage_dtor s st = (case t_ptr s of None \<Rightarrow> st | Some p \<Rightarrow> destroy p st)"

text \<open>\<^verbatim>\<open>T* operator -> () const { return _t; }\<close>\<close>

definition operator_arrow :: "predicated_constructee_storage \<Rightarrow> addr option" where
  "operator_arrow s = t_ptr s"

text \<open>\<^verbatim>\<open>T& operator * () const { return *_t; }\<close>: the reference is the address of the object.\<close>

definition operator_star :: "predicated_constructee_storage \<Rightarrow> error + addr" where
  "operator_star s = (case t_ptr s of None \<Rightarrow> Inl Null_dereference | Some p \<Rightarrow> Inr p)"

text \<open>
  \<^verbatim>\<open>BOOST_PREDICATED_ANONYMOUS_CONSTRUCTOR(condition, obj, params)\<close>: \<open>mem\<close> is the address
  of the local \<^verbatim>\<open>aligned_storage\<close> variable, \<open>ctor params\<close> the object that the
  constructor call \<^verbatim>\<open>obj params\<close> builds. The storage object is initialised with
  \<^verbatim>\<open>(condition) ? new (&mem) obj params : 0\<close>.
\<close>

definition BOOST_PREDICATED_ANONYMOUS_CONSTRUCTOR ::
  "bool \<Rightarrow> ('p \<Rightarrow> 'obj) \<Rightarrow> 'p \<Rightarrow> addr \<Rightarrow> 'obj scope_state \<Rightarrow> predicated_constructee_storage \<times> 'obj scope_state" where
  "BOOST_PREDICATED_ANONYMOUS_CONSTRUCTOR condition ctor params mem st =
     (if condition
      then (let (p, st') = placement_new mem (ctor params) st in (storage_ctor (Some p), st'))
      else (storage_ctor None, st))"

text \<open>
  \<^verbatim>\<open>BOOST_PREDICATED_CONSTRUCTOR(condition, name, obj, params)\<close>: the same two
  declarations, then \<^verbatim>\<open>obj& name = *storage\<close>. The second component is what \<open>name\<close>
  is bound to.
\<close>

definition BOOST_PREDICATED_CONSTRUCTOR ::
  "bool \<Rightarrow> ('p \<Rightarrow> 'obj) \<Rightarrow> 'p \<Rightarrow> addr \<Rightarrow> 'obj scope_state \<Rightarrow> predicated_constructee_storage \<times> (error + addr) \<times> 'obj scope_state" where
  "BOOST_PREDICATED_CONSTRUCTOR condition ctor params mem st =
     (let (s, st') = BOOST_PREDICATED_ANONYMOUS_CONSTRUCTOR condition ctor params mem st
      in (s, operator_star s, st'))"

text \<open>
  A scope that uses the anonymous macro: the declarations, the rest of the scope \<open>body\<close>,
  then the destructor of the storage object at scope exit.
\<close>

definition anonymous_scope ::
  "bool \<Rightarrow> ('p \<Rightarrow> 'obj) \<Rightarrow> 'p \<Rightarrow> addr \<Rightarrow> ('obj scope_state \<Rightarrow> 'obj scope_state) \<Rightarrow> 'obj scope_state \<Rightarrow> 'obj scope_state" where
  "anonymous_scope condition ctor params mem body st =
     (let (s, st') = BOOST_PREDICATED_ANONYMOUS_CONSTRUCTOR condition ctor params mem st
      in storage_dtor s (body st'))"

section \<open>The run-time operations of the repository\<close>



text \<open>An input or output action; the source has none.\<close>

datatype io_action = Read string | Write string




section \<open>The example of the header\<close>

text \<open>
  The full example in the header's introduction:
  \<^verbatim>\<open>BOOST_CUSTOM_OP(int, const A&, a, /, ~+, -, const B&, b) { return a.value() * 2 + b.as_int() * 3; }\<close>
  The structs \<^verbatim>\<open>A\<close> and \<^verbatim>\<open>B\<close> hold one \<^verbatim>\<open>int\<close> each, which stands for the object here.
\<close>

definition example_op :: "(int, int, string, int) custom_op" where
  "example_op = \<lparr>binop = ''/'', ops = [Tilde, Plus], firstop = Minus,
     param2type = Reference (Const (Class ''B'')), implementation = (\<lambda>a b. a * 2 + b * 3)\<rparr>"

text \<open>An empty scope state, and a constructor for the examples of predicated construction.\<close>

definition empty_state :: "nat scope_state" where
  "empty_state = \<lparr>memory = Map.empty, events = []\<rparr>"

definition example_ctor :: "nat \<Rightarrow> nat" where
  "example_ctor device = Suc device"

text \<open>
  The built-in prefix operators, for the examples: on an \<^verbatim>\<open>int\<close> (overflow apart), on a
  pointer to a class object, and on an object of a class that has no operators and no
  conversions of its own, or a \<^verbatim>\<open>reference_wrapper\<close> of one, where only \<^verbatim>\<open>&\<close> on an lvalue
  is built in. The other cases are not followed.
\<close>

fun builtin_unary :: "int others" where
  "builtin_unary OP (Wrapped w) = Not_viable"
| "builtin_unary OP (Plain T l v) =
     (case remove_const T of
        Fundamental n \<Rightarrow>
          (if n = ''int'' then
             (case OP of
                Plus \<Rightarrow> Yields (Plain (Fundamental ''int'') False v)
              | Minus \<Rightarrow> Yields (Plain (Fundamental ''int'') False (- v))
              | Tilde \<Rightarrow> Yields (Plain (Fundamental ''int'') False (- v - 1))
              | _ \<Rightarrow> Not_followed)
           else Not_followed)
      | Pointer X \<Rightarrow>
          (case OP of
             Asterisk \<Rightarrow> (case remove_const X of Class n \<Rightarrow> Yields (Plain X True v) | _ \<Rightarrow> Not_followed)
           | Minus \<Rightarrow> Not_viable
           | Tilde \<Rightarrow> Not_viable
           | _ \<Rightarrow> Not_followed)
      | Class n \<Rightarrow>
          (case OP of
             Amp \<Rightarrow> if l then Fallback (Plain (Pointer T) False v) else Not_viable
           | _ \<Rightarrow> Not_viable)
      | reference_wrapper Y \<Rightarrow>
          (case remove_const Y of
             Class n \<Rightarrow>
               (case OP of
                  Amp \<Rightarrow> if l then Fallback (Plain (Pointer T) False v) else Not_viable
                | _ \<Rightarrow> Not_viable)
           | _ \<Rightarrow> Not_followed)
      | _ \<Rightarrow> Not_followed)"

text \<open>
  The same for a program whose classes declare a unary \<^verbatim>\<open>operator-\<close> of their own, which is
  not followed.
\<close>

definition own_unary_minus :: "int others" where
  "own_unary_minus OP x =
     (case x of
        Plain T l v \<Rightarrow>
          (case remove_const T of
             Class n \<Rightarrow> if OP = Minus then Not_followed else builtin_unary OP x
           | _ \<Rightarrow> builtin_unary OP x)
      | Wrapped w \<Rightarrow> builtin_unary OP x)"

section \<open>Properties of nested wrapper types\<close>

lemma tag_from_op_eq_iff: "(tag_from_op x = tag_from_op y) = (x = y)"
  by (cases x; cases y; simp)

lemma OPTAG_eq_iff: "(BOOST_COPS_OPTAG x = BOOST_COPS_OPTAG y) = (x = y)"
  by (simp add: BOOST_COPS_OPTAG_def tag_from_op_eq_iff)

lemma OPTAG_injective: "inj BOOST_COPS_OPTAG"
  by (rule injI) (simp add: OPTAG_eq_iff)

lemma unwrap_not_wrapped: "\<not> is_wrapped (unwrap W)"
  by (induction W) simp_all

lemma unwrap_id: "\<not> is_wrapped W \<Longrightarrow> unwrap W = W"
  by (cases W) simp_all

lemma unwrap_nested: "unwrap (nested_wrapper T Tgs) = unwrap T"
  by (induction Tgs arbitrary: T) simp_all

lemma nested_snoc: "nested_wrapper T (Tgs @ [Tg]) = wrapped (nested_wrapper T Tgs) Tg"
  by (induction Tgs arbitrary: T) simp_all

lemma size_nested_le: "size T \<le> size (nested_wrapper T Tgs)"
proof (induction Tgs arbitrary: T)
  case Nil
  show ?case by simp
next
  case (Cons Tg Tgs)
  have "size T \<le> size (wrapped T Tg)" by simp
  also have "\<dots> \<le> size (nested_wrapper (wrapped T Tg) Tgs)" by (rule Cons.IH)
  finally show ?case by simp
qed

lemma size_nested_less: "size T < size (nested_wrapper T (Tg # Tgs))"
proof -
  have "size T < size (wrapped T Tg)" by simp
  also have "\<dots> \<le> size (nested_wrapper (wrapped T Tg) Tgs)" by (rule size_nested_le)
  finally show ?thesis by simp
qed

lemma nested_neq_self: "nested_wrapper T (Tg # Tgs) \<noteq> T"
  using size_nested_less [of T Tg Tgs] by auto

text \<open>Over a fixed innermost type, the nested wrapper determines the list of tags.\<close>

lemma nested_inj: "nested_wrapper T xs = nested_wrapper T ys \<Longrightarrow> xs = ys"
proof (induction xs arbitrary: ys rule: rev_induct)
  case Nil
  show ?case
  proof (cases ys)
    case (Cons u us)
    with Nil nested_neq_self [of T u us] show ?thesis by simp
  qed simp
next
  case (snoc x xs)
  show ?case
  proof (cases ys rule: rev_cases)
    case Nil
    with snoc.prems have "size (wrapped (nested_wrapper T xs) x) = size T"
      by (simp add: nested_snoc)
    with size_nested_le [of T xs] show ?thesis by simp
  next
    case (snoc us u)
    with snoc.prems have "wrapped (nested_wrapper T xs) x = wrapped (nested_wrapper T us) u"
      by (simp add: nested_snoc)
    then have "nested_wrapper T xs = nested_wrapper T us" and "x = u" by simp_all
    with snoc.IH snoc show ?thesis by simp
  qed
qed

section \<open>Properties of the type finder and the wrapping operators\<close>

text \<open>\<open>fold\<close> applies the head of the list first: the list is in application order.\<close>

lemma finder_fold:
  "fold type_finder_operator us (type_finder_impl T) =
     type_finder_impl (nested_wrapper T (map BOOST_COPS_OPTAG us))"
  by (induction us arbitrary: T) simp_all

lemma wrapping_fold_type:
  "type_of_wrapped (fold wrapping_operator us w) =
     nested_wrapper (type_of_wrapped w) (map BOOST_COPS_OPTAG us)"
  by (induction us arbitrary: w)
     (simp_all add: wrapping_operator_def wrapped_from_wrapped_def type_of_wrapped_def)

lemma wrapping_fold_value: "wvalue (fold wrapping_operator us w) = wvalue w"
  by (induction us arbitrary: w) (simp_all add: wrapping_operator_def wrapped_from_wrapped_def)

lemma custom_binary_param_eq:
  "custom_binary_param d =
     nested_wrapper (param2type d) (map BOOST_COPS_OPTAG (firstop d # rev (ops d)))"
  by (simp add: custom_binary_param_def type_finder_f_def foldr_conv_fold finder_fold)

section \<open>Which arguments the generated unary operator takes\<close>

lemma is_fundamental_remove_const: "is_fundamental (remove_const X) = is_fundamental X"
  by (cases X) simp_all

lemma is_pointer_remove_const: "is_pointer (remove_const X) = is_pointer X"
  by (cases X) simp_all

lemma is_fundamental_T: "is_fundamental (reasonable_type_T P) = is_fundamental (remove_cv_ref P)"
  by (cases P) (simp_all add: reasonable_type_T_def remove_cv_ref_def is_fundamental_remove_const)

lemma is_pointer_T: "is_pointer (reasonable_type_T P) = is_pointer (remove_cv_ref P)"
  by (cases P) (simp_all add: reasonable_type_T_def remove_cv_ref_def is_pointer_remove_const)

lemma reasonable_type_cases:
  "reasonable_type_for_unary_operator_overload P =
     (if is_fundamental (remove_cv_ref P) \<or> is_pointer (remove_cv_ref P)
      then cop_reference_wrapper (reasonable_type_T P) else P)"
  by (simp add: reasonable_type_for_unary_operator_overload_def Let_def is_fundamental_T is_pointer_T)

text \<open>A parameter of type \<open>P\<close> takes a variable declared with the type \<open>P\<close>.\<close>

lemma direct_binding_variable: "direct_binding P (remove_reference P) True"
proof (cases P)
  case (Reference X)
  then show ?thesis by (cases X) simp_all
qed simp_all

text \<open>No parameter type binds to an object of a \<^verbatim>\<open>wrapped\<close> type that is larger than itself.\<close>

lemma no_direct_binding_larger:
  assumes "size Q < size (wrapped X Y)"
  shows "\<not> direct_binding Q (wrapped X Y) l"
proof (cases Q)
  case (Reference Z)
  with assms show ?thesis by (cases Z) auto
next
  case (Const Z)
  with assms show ?thesis by auto
next
  case (wrapped Z1 Z2)
  with assms show ?thesis by auto
qed simp_all

lemma no_direct_binding_nested:
  "\<not> direct_binding (reasonable_type_for_unary_operator_overload P) (nested_wrapper P (Tg # Tgs)) l"
proof (cases "Tg # Tgs" rule: rev_cases)
  case (snoc us u)
  have s: "size P < size (nested_wrapper P (Tg # Tgs))" by (rule size_nested_less)
  have n: "nested_wrapper P (Tg # Tgs) = wrapped (nested_wrapper P us) u"
    using snoc by (simp add: nested_snoc del: nested_wrapper.simps)
  show ?thesis
  proof (cases "is_fundamental (remove_cv_ref P) \<or> is_pointer (remove_cv_ref P)")
    case True
    then show ?thesis unfolding n by (simp add: reasonable_type_cases)
  next
    case False
    then show ?thesis
      using no_direct_binding_larger [of P "nested_wrapper P us" u l] s
      unfolding n by (simp add: reasonable_type_cases)
  qed
qed simp

section \<open>Properties of expression evaluation\<close>

text \<open>On a wrapper over the second parameter type only the wrapping template applies.\<close>

lemma library_unary_nested:
  assumes "type_of_wrapped w = nested_wrapper (param2type d) (Tg # Tgs)"
  shows "library_unary d OP (Wrapped w) = Some (Wrapped (wrapping_operator OP w))"
  using assms no_direct_binding_nested [of "param2type d" Tg Tgs False]
  by (simp add: library_unary_def custom_unary_param_def Let_def del: nested_wrapper.simps)

lemma unary_on_nested:
  assumes "type_of_wrapped w = nested_wrapper (param2type d) (Tg # Tgs)"
  shows "unary_operator others d OP (Wrapped w) = Selected (Wrapped (wrapping_operator OP w))"
  by (simp add: unary_operator_def library_unary_nested [OF assms])

lemma type_of_custom_chain:
  "type_of_wrapped (fold wrapping_operator us (custom_unary d b)) =
     nested_wrapper (param2type d) (BOOST_COPS_OPTAG (firstop d) # map BOOST_COPS_OPTAG us)"
  unfolding wrapping_fold_type
  by (simp add: custom_unary_def wrapped_from_value_def type_of_wrapped_def)

text \<open>Once the operator of the macro has taken the operand, the run goes through.\<close>

lemma eval_prefix_custom:
  assumes "unary_operator others d (firstop d) x = Selected (Wrapped (custom_unary d b))"
  shows "eval_prefix others d (us @ [firstop d]) x =
           Selected (Wrapped (fold wrapping_operator (rev us) (custom_unary d b)))"
proof (induction us)
  case Nil
  show ?case using assms by simp
next
  case (Cons u us)
  show ?case
    using Cons.IH unary_on_nested [OF type_of_custom_chain, of others d u "rev us" b] by simp
qed

lemma eval_expression_custom:
  assumes "unary_operator others d (firstop d) x = Selected (Wrapped (custom_unary d b))"
  shows "eval_expression others d a (binop d) (ops d @ [firstop d]) x =
           Called \<lparr>result = implementation d a b, implementation_calls = [(a, b)]\<rparr>"
proof -
  let ?w = "fold wrapping_operator (rev (ops d)) (custom_unary d b)"
  have p: "eval_prefix others d (ops d @ [firstop d]) x = Selected (Wrapped ?w)"
    by (rule eval_prefix_custom [OF assms])
  have t: "type_of_wrapped ?w = custom_binary_param d"
    by (simp only: type_of_custom_chain custom_binary_param_eq list.map)
  have v: "wvalue ?w = b"
    by (simp add: wrapping_fold_value custom_unary_def wrapped_from_value_def)
  show ?thesis
    by (simp add: eval_expression_def p binary_operator_def t custom_binary_def v)
qed

lemma unary_operator_takes:
  assumes "takes_operand d x" and "\<not> competes (others (firstop d) x)"
  shows "unary_operator others d (firstop d) x = Selected (Wrapped (custom_unary d (operand_value x)))"
  using assms by (auto simp add: takes_operand_def unary_operator_def library_unary_def Let_def)

lemma unary_operator_variable:
  assumes "\<not> is_fundamental (remove_cv_ref (param2type d))"
    and "\<not> is_pointer (remove_cv_ref (param2type d))"
    and "\<not> competes (others (firstop d) (variable (param2type d) b))"
  shows "unary_operator others d (firstop d) (variable (param2type d) b) =
           Selected (Wrapped (custom_unary d b))"
proof -
  have q: "custom_unary_param d = param2type d"
    using assms(1,2) by (simp add: custom_unary_param_def reasonable_type_cases)
  have f: "\<not> is_fundamental (remove_reference (param2type d))"
    using assms(1) by (simp add: remove_cv_ref_def is_fundamental_remove_const)
  have p: "\<not> is_pointer (remove_reference (param2type d))"
    using assms(2) by (simp add: remove_cv_ref_def is_pointer_remove_const)
  have l: "library_unary d (firstop d) (variable (param2type d) b) = Some (Wrapped (custom_unary d b))"
    by (simp add: library_unary_def variable_def Let_def q f p direct_binding_variable)
  show ?thesis
    using assms(3) by (simp add: unary_operator_def l)
qed

text \<open>
  Where the class of the operand has a unary operator like the last operator of the
  string, which the header excludes, the evaluation is not decided.
\<close>

lemma own_unary_operator_not_decided:
  "eval_expression own_unary_minus example_op 5 ''/'' [Tilde, Plus, Minus]
     (variable (Reference (Const (Class ''B''))) 7) = Not_decided"
  by (simp add: example_op_def eval_expression_def unary_operator_def library_unary_def
      custom_unary_param_def variable_def own_unary_minus_def Let_def
      reasonable_type_for_unary_operator_overload_def reasonable_type_T_def)

section \<open>Properties of the operator string as written\<close>

lemma unop_of_spelling_inverse: "unop_of_spelling (unop_spelling u) = Some u"
  by (cases u) (simp_all add: unop_of_spelling_def BOOST_COPS_ITERATE_OPS_def)

lemma those_unop_spellings: "those (map unop_of_spelling (map unop_spelling us)) = Some us"
  by (induction us) (simp_all add: unop_of_spelling_inverse)

lemma eval_source_spelling:
  assumes "lex (spelling d) = Tokens (operator_tokens d)"
    and "binop d \<in> set binary_operators"
  shows "eval_source others d a (spelling d) x =
           eval_expression others d a (binop d) (ops d @ [firstop d]) x"
  using assms(2) those_unop_spellings [of "ops d @ [firstop d]"]
  by (simp add: eval_source_def assms(1) operator_tokens_def del: map_append)

section \<open>Examples of evaluation\<close>

text \<open>
  Prefix operators in front of the operand are operators of their own: with the built-in
  \<^verbatim>\<open>&\<close> and \<^verbatim>\<open>*\<close> after the operator string, \<^verbatim>\<open>a /~+-*& b\<close> still reaches the
  implementation function.
\<close>

lemma extra_prefix_operators_dispatched:
  "eval_source builtin_unary example_op 5 ''/~+-*&'' (variable (Reference (Const (Class ''B''))) 7) =
     Called \<lparr>result = 31, implementation_calls = [(5, 7)]\<rparr>"
  by code_simp

text \<open>A parameter of type \<^verbatim>\<open>B&\<close> does not bind to a const operand: the expression is ill-formed.\<close>

lemma const_operand_not_taken_by_reference:
  "eval_expression builtin_unary (example_op\<lparr>param2type := Reference (Class ''B'')\<rparr>) 5 ''/''
     [Tilde, Plus, Minus] (Plain (Const (Class ''B'')) True 7) = Not_called"
  by code_simp

text \<open>A \<^verbatim>\<open>reference_wrapper<B>\<close> converts to \<^verbatim>\<open>B&\<close>, which the parameter \<^verbatim>\<open>const B&\<close> takes.\<close>

lemma reference_wrapper_operand_dispatched:
  "eval_expression builtin_unary example_op 5 ''/'' [Tilde, Plus, Minus]
     (Plain (reference_wrapper (Class ''B'')) False 7) =
     Called \<lparr>result = 31, implementation_calls = [(5, 7)]\<rparr>"
  by code_simp

text \<open>
  On a \<^verbatim>\<open>reference_wrapper<const int>\<close> the built-in \<^verbatim>\<open>-\<close> is a candidate as well, through
  the conversion to \<^verbatim>\<open>const int&\<close>: this is not decided.
\<close>

lemma cref_of_int_not_decided:
  "eval_expression builtin_unary (example_op\<lparr>param2type := Fundamental ''int''\<rparr>) 5 ''/''
     [Tilde, Plus, Minus] (Plain (reference_wrapper (Const (Fundamental ''int''))) False 7) = Not_decided"
  by code_simp

section \<open>Properties of predicated construction\<close>

lemma events_placement_new:
  "events (snd (placement_new mem x st)) = events st @ [Constructor_call mem]"
  by (simp add: placement_new_def)

lemma events_destroy: "events (destroy p st) = events st @ [Destructor_call p]"
  by (simp add: destroy_def)

lemma anonymous_scope_true:
  "anonymous_scope True ctor params mem body st =
     destroy mem (body (snd (placement_new mem (ctor params) st)))"
  by (simp add: anonymous_scope_def BOOST_PREDICATED_ANONYMOUS_CONSTRUCTOR_def placement_new_def
      storage_ctor_def storage_dtor_def)

lemma anonymous_scope_false:
  "anonymous_scope False ctor params mem body st = body st"
  by (simp add: anonymous_scope_def BOOST_PREDICATED_ANONYMOUS_CONSTRUCTOR_def
      storage_ctor_def storage_dtor_def)

section \<open>The claims\<close>

text \<open>
  C1, as amended. For every custom operator whose second parameter type, once a reference
  and const are removed, is neither a fundamental type nor a pointer, for every operand
  \<open>a\<close> of the first parameter type and every variable \<open>b\<close> of the second parameter type
  such that no operator other than the library's competes for \<^verbatim>\<open>lastop\<close> on \<open>b\<close> (neither
  an operator of the second type's own nor a built-in one), the expression with the
  operator tokens \<^verbatim>\<open>binop ops lastop\<close> between \<open>a\<close> and \<open>b\<close> calls the implementation
  function exactly once, on \<open>a\<close> and \<open>b\<close>, and its result is that function's result.
\<close>

theorem custom_op_calls_implementation_once:
  assumes "\<not> is_fundamental (remove_cv_ref (param2type d))"
    and "\<not> is_pointer (remove_cv_ref (param2type d))"
    and "\<not> competes (others (firstop d) (variable (param2type d) b))"
  shows "eval_expression others d a (binop d) (ops d @ [firstop d]) (variable (param2type d) b) =
           Called \<lparr>result = implementation d a b, implementation_calls = [(a, b)]\<rparr>"
  by (rule eval_expression_custom) (rule unary_operator_variable [where others = others, OF assms])

text \<open>
  The example of the header, \<^verbatim>\<open>a /~+- b\<close> with 5 in \<open>a\<close> and 7 in \<open>b\<close>, gives 31; the
  struct \<^verbatim>\<open>B\<close> of the example has no operators of its own.
\<close>

theorem custom_op_calls_implementation_once_witness:
  "\<not> is_fundamental (remove_cv_ref (param2type example_op)) \<and>
   \<not> is_pointer (remove_cv_ref (param2type example_op)) \<and>
   \<not> competes (builtin_unary (firstop example_op) (variable (param2type example_op) 7)) \<and>
   eval_expression builtin_unary example_op 5 ''/'' [Tilde, Plus, Minus]
       (variable (Reference (Const (Class ''B''))) 7) =
     Called \<lparr>result = 31, implementation_calls = [(5, 7)]\<rparr>"
  using custom_op_calls_implementation_once [of example_op builtin_unary 7 5]
  by (simp add: example_op_def remove_cv_ref_def variable_def)

text \<open>
  C1 as stated fails when the second parameter type is fundamental: with \<^verbatim>\<open>int\<close> for
  \<^verbatim>\<open>const B&\<close> in the example, the generated unary operator takes a
  \<^verbatim>\<open>cop_reference_wrapper<const int>\<close>; on an \<^verbatim>\<open>int\<close> operand the three prefix operators
  are the built-in ones, their result is an \<^verbatim>\<open>int\<close>, which the generated binary operator
  does not take, and the implementation function is not called.
\<close>

theorem custom_op_fundamental_operand_not_dispatched:
  "eval_expression builtin_unary (example_op\<lparr>param2type := Fundamental ''int''\<rparr>) 5 ''/''
     [Tilde, Plus, Minus] (variable (Fundamental ''int'') 7) = Not_called"
  by (simp add: example_op_def eval_expression_def unary_operator_def library_unary_def
      custom_unary_param_def variable_def binary_operator_def Let_def)

text \<open>
  C2. For every type \<open>T\<close> and every sequence \<open>us\<close> of the eight operators, in application
  order, applying them to \<^verbatim>\<open>type_finder<T>::f\<close> gives a \<^verbatim>\<open>type_finder_impl\<close> of the nested
  wrapper over \<open>T\<close> that has the tag of the i-th operator at the i-th level, innermost
  first; applying them to a wrapped object nests its type in the same way; and two
  sequences give the same type only if they are the same sequence.
\<close>

theorem type_finder_encodes_operator_sequence:
  "type_member (fold type_finder_operator us (type_finder_f T)) =
     nested_wrapper T (map (\<lambda>OP. Tag (tag_from_op OP)) us) \<and>
   type_of_wrapped (fold wrapping_operator us w) =
     nested_wrapper (type_of_wrapped w) (map (\<lambda>OP. Tag (tag_from_op OP)) us) \<and>
   ((fold type_finder_operator us (type_finder_f T) = fold type_finder_operator us' (type_finder_f T))
      = (us = us'))"
proof -
  have o: "BOOST_COPS_OPTAG = (\<lambda>OP. Tag (tag_from_op OP))"
    by (rule ext) (simp add: BOOST_COPS_OPTAG_def)
  have "us = us'"
    if "fold type_finder_operator us (type_finder_f T) = fold type_finder_operator us' (type_finder_f T)"
  proof -
    from that
    have "nested_wrapper T (map BOOST_COPS_OPTAG us) = nested_wrapper T (map BOOST_COPS_OPTAG us')"
      by (simp add: type_finder_f_def finder_fold)
    then have "map BOOST_COPS_OPTAG us = map BOOST_COPS_OPTAG us'" by (rule nested_inj)
    then show "us = us'" using inj_map_eq_map [OF OPTAG_injective] by blast
  qed
  then show ?thesis
    using finder_fold [of us T] wrapping_fold_type [of us w]
    by (auto simp add: type_finder_f_def o)
qed

text \<open>
  C3. In a scope that uses \<^verbatim>\<open>BOOST_PREDICATED_ANONYMOUS_CONSTRUCTOR\<close>, whose remaining
  statements neither construct nor destroy an object in the macro's storage: if the
  condition is true, one object is constructed in the storage by the macro and the last
  thing the scope does is to destroy it, so that the scope adds one constructor call and
  one destructor call; if the condition is false the scope adds neither and does what its
  remaining statements do.
\<close>

theorem predicated_anonymous_constructor_balanced:
  assumes c: "\<And>s. count_list (events (body s)) (Constructor_call mem) =
                 count_list (events s) (Constructor_call mem)"
    and d: "\<And>s. count_list (events (body s)) (Destructor_call mem) =
                 count_list (events s) (Destructor_call mem)"
  shows "count_list (events (anonymous_scope condition ctor params mem body st)) (Constructor_call mem) =
           count_list (events st) (Constructor_call mem) + (if condition then 1 else 0) \<and>
         count_list (events (anonymous_scope condition ctor params mem body st)) (Destructor_call mem) =
           count_list (events st) (Destructor_call mem) + (if condition then 1 else 0) \<and>
         (if condition
          then memory (snd (BOOST_PREDICATED_ANONYMOUS_CONSTRUCTOR condition ctor params mem st)) mem
                 = Some (ctor params) \<and>
               last (events (anonymous_scope condition ctor params mem body st)) = Destructor_call mem
          else anonymous_scope condition ctor params mem body st = body st)"
proof (cases condition)
  case True
  then show ?thesis
    by (simp add: anonymous_scope_true events_destroy c d events_placement_new
        BOOST_PREDICATED_ANONYMOUS_CONSTRUCTOR_def placement_new_def)
next
  case False
  then show ?thesis
    by (simp add: anonymous_scope_false c d)
qed

theorem predicated_anonymous_constructor_balanced_witness:
  "count_list (events (anonymous_scope True example_ctor 41 7 (\<lambda>s. s) empty_state)) (Constructor_call 7) = 1 \<and>
   count_list (events (anonymous_scope True example_ctor 41 7 (\<lambda>s. s) empty_state)) (Destructor_call 7) = 1 \<and>
   count_list (events (anonymous_scope False example_ctor 41 7 (\<lambda>s. s) empty_state)) (Constructor_call 7) = 0 \<and>
   count_list (events (anonymous_scope False example_ctor 41 7 (\<lambda>s. s) empty_state)) (Destructor_call 7) = 0"
  using predicated_anonymous_constructor_balanced [of "\<lambda>s. s" 7 True example_ctor 41 empty_state]
    predicated_anonymous_constructor_balanced [of "\<lambda>s. s" 7 False example_ctor 41 empty_state]
  by (simp add: empty_state_def)

text \<open>
  C4. \<^verbatim>\<open>tag_from_op\<close> is injective: two operators have the same tag type only if they
  are the same operator.
\<close>

theorem tag_from_op_injective: "(tag_from_op x = tag_from_op y) = (x = y)"
  by (cases x; cases y; simp)

text \<open>
  C5, as amended. A custom operator is one binary operator followed by the run \<open>ops\<close>,
  \<open>lastop\<close> of unary operators. Where its operator string, written without spaces, is cut
  by the compiler into exactly these operators, the expression \<^verbatim>\<open>a binop ops lastop b\<close>
  is dispatched as one operator: on an operand that the generated unary operator takes
  and for which no other operator competes for \<open>lastop\<close>, it is one call of the
  implementation function, on \<open>a\<close> and the operand, and gives that function's result.
\<close>

theorem custom_operator_string_dispatched:
  assumes "lex (spelling d) = Tokens (operator_tokens d)"
    and "binop d \<in> set binary_operators"
    and "takes_operand d x"
    and "\<not> competes (others (firstop d) x)"
  shows "eval_source others d a (spelling d) x =
           Called \<lparr>result = implementation d a (operand_value x),
                   implementation_calls = [(a, operand_value x)]\<rparr>"
  unfolding eval_source_spelling [OF assms(1,2)]
  by (rule eval_expression_custom) (rule unary_operator_takes [where others = others, OF assms(3,4)])

theorem custom_operator_string_dispatched_witness:
  "lex (spelling example_op) = Tokens (operator_tokens example_op) \<and>
   binop example_op \<in> set binary_operators \<and>
   takes_operand example_op (variable (Reference (Const (Class ''B''))) 7) \<and>
   \<not> competes (builtin_unary (firstop example_op) (variable (Reference (Const (Class ''B''))) 7)) \<and>
   eval_source builtin_unary example_op 5 ''/~+-'' (variable (Reference (Const (Class ''B''))) 7) =
     Called \<lparr>result = 31, implementation_calls = [(5, 7)]\<rparr>"
proof -
  have l: "lex (spelling example_op) = Tokens (operator_tokens example_op)" by code_simp
  have b: "binop example_op \<in> set binary_operators"
    by (simp add: example_op_def binary_operators_def)
  have t: "takes_operand example_op (variable (Reference (Const (Class ''B''))) 7)"
    by (simp add: takes_operand_def variable_def example_op_def custom_unary_param_def
        reasonable_type_for_unary_operator_overload_def reasonable_type_T_def)
  have c: "\<not> competes (builtin_unary (firstop example_op) (variable (Reference (Const (Class ''B''))) 7))"
    by (simp add: variable_def example_op_def)
  have s: "spelling example_op = ''/~+-''" by (simp add: spelling_def example_op_def)
  have v: "operand_value (variable (Reference (Const (Class ''B''))) (7::int)) = 7"
    by (simp add: variable_def)
  have i: "implementation example_op 5 7 = 31" by (simp add: example_op_def)
  have "eval_source builtin_unary example_op 5 ''/~+-'' (variable (Reference (Const (Class ''B''))) 7) =
          Called \<lparr>result = 31, implementation_calls = [(5, 7)]\<rparr>"
    using custom_operator_string_dispatched [where others = builtin_unary, OF l b t c, of 5]
    by (simp only: s v i)
  with l b t c show ?thesis by simp
qed

text \<open>
  C5 as stated fails for the custom operator with \<^verbatim>\<open>*\<close> for \<^verbatim>\<open>~+\<close> in the example,
  \<^verbatim>\<open>BOOST_CUSTOM_OP(int, const A&, a, /, *, -, const B&, b)\<close>: its operator string is
  \<^verbatim>\<open>/*-\<close>, which opens a comment, so \<^verbatim>\<open>a /*- b\<close> is no operator expression and the
  implementation function is not called.
\<close>

theorem custom_operator_string_comment:
  "spelling (example_op\<lparr>ops := [Asterisk]\<rparr>) = ''/*-'' \<and>
   eval_source builtin_unary (example_op\<lparr>ops := [Asterisk]\<rparr>) 5 ''/*-''
     (variable (Reference (Const (Class ''B''))) 7) = Not_called"
proof -
  have "lex ''/*-'' = In_comment" by code_simp
  then show ?thesis by (simp add: spelling_def example_op_def eval_source_def)
qed




text \<open>
  C8. Wrapping keeps the value: for every \<open>b\<close> and every chain of wrapping operators on
  top of \<^verbatim>\<open>wrapped<T2, Tag>(b)\<close>, the \<^verbatim>\<open>value\<close> member of the outermost wrapper is \<open>b\<close>.
\<close>

theorem wrapping_preserves_value:
  "wvalue (fold wrapping_operator chain (wrapped_from_value T2 Tg b)) = b"
  by (simp add: wrapping_fold_value wrapped_from_value_def)

text \<open>
  C9. When the condition of \<^verbatim>\<open>BOOST_PREDICATED_CONSTRUCTOR\<close> is false, nothing is
  constructed, the pointer in the storage object is null, and the reference \<open>name\<close> is
  bound to the result of \<^verbatim>\<open>operator*\<close> on that null pointer, which checks nothing and
  dereferences null, as \<^verbatim>\<open>operator->\<close> returns the null pointer unchecked.
\<close>

theorem predicated_constructor_false_null_reference:
  assumes "\<not> condition"
  shows "BOOST_PREDICATED_CONSTRUCTOR condition ctor params mem st =
           (storage_ctor None, Inl Null_dereference, st) \<and>
         t_ptr (storage_ctor None) = None \<and>
         operator_star (storage_ctor None) = Inl Null_dereference \<and>
         operator_arrow (storage_ctor None) = None"
  using assms
  by (simp add: BOOST_PREDICATED_CONSTRUCTOR_def BOOST_PREDICATED_ANONYMOUS_CONSTRUCTOR_def
      storage_ctor_def operator_star_def operator_arrow_def)

theorem predicated_constructor_false_null_reference_witness:
  "\<not> False \<and>
   BOOST_PREDICATED_CONSTRUCTOR False example_ctor 41 7 empty_state =
     (storage_ctor None, Inl Null_dereference, empty_state)"
  using predicated_constructor_false_null_reference [of False example_ctor 41 7 empty_state]
  by simp

text \<open>
  C10. \<^verbatim>\<open>unwrap<W>::type\<close> is never an instance of \<^verbatim>\<open>wrapped\<close>; \<^verbatim>\<open>unwrap\<close> is idempotent;
  and at every nesting depth the member typedef \<^verbatim>\<open>type\<close> of \<^verbatim>\<open>wrapped<T, Tag>\<close> is the
  innermost type of \<open>T\<close>, the one that is not an instance of \<^verbatim>\<open>wrapped\<close>.
\<close>

theorem unwrap_normalizes:
  "\<not> is_wrapped (unwrap W) \<and> unwrap (unwrap W) = unwrap W \<and>
   (\<not> is_wrapped T0 \<longrightarrow> wrapped_type (nested_wrapper T0 Tgs) Tg = T0)"
  by (simp add: unwrap_not_wrapped unwrap_id wrapped_type_def unwrap_nested)

theorem unwrap_normalizes_witness:
  "\<not> is_wrapped (Class ''B'') \<and>
   wrapped_type (nested_wrapper (Class ''B'') [Tag minus_tag, Tag plus_tag]) (Tag tilde_tag) = Class ''B'' \<and>
   \<not> is_wrapped (unwrap (wrapped (wrapped (Class ''B'') (Tag minus_tag)) (Tag plus_tag)))"
  using unwrap_normalizes [of "wrapped (wrapped (Class ''B'') (Tag minus_tag)) (Tag plus_tag)"
      "Class ''B''" "[Tag minus_tag, Tag plus_tag]" "Tag tilde_tag"]
  by simp

end
